theory Spec2Isabelle
  imports Main
begin

section \<open>Participant identities\<close>

text \<open>
  Both consultation pages build their identity the same way:
  \<^verbatim>\<open>const generatePatientId = () => `PT-${Math.random().toString(36).substr(2, 8).toUpperCase()}`\<close>
  and likewise \<^verbatim>\<open>generateDoctorId\<close> with the prefix \<^verbatim>\<open>DR-\<close>.
  The random source is an input of the model: the argument \<open>rnd\<close> is the string
  \<^verbatim>\<open>Math.random().toString(36)\<close>, which is \<^verbatim>\<open>"0"\<close> for the number 0 and
  \<^verbatim>\<open>"0."\<close> followed by the base-36 digits of the fraction otherwise
  (\<^verbatim>\<open>"0.i"\<close> for 0.5, since 18/36 = 1/2).
\<close>

definition substr :: "string \<Rightarrow> nat \<Rightarrow> nat \<Rightarrow> string" where
  \<comment> \<open>\<^verbatim>\<open>String.prototype.substr(start, length)\<close> for non-negative arguments\<close>
  "substr s start len = take len (drop start s)"

definition upper_char :: "char \<Rightarrow> char" where
  \<comment> \<open>ASCII letters are mapped to their capitals; every other character is kept\<close>
  "upper_char c =
     (case map_of (zip ''abcdefghijklmnopqrstuvwxyz'' ''ABCDEFGHIJKLMNOPQRSTUVWXYZ'') c of
        Some u \<Rightarrow> u
      | None \<Rightarrow> c)"

definition toUpperCase :: "string \<Rightarrow> string" where
  "toUpperCase s = map upper_char s"

definition generatePatientId :: "string \<Rightarrow> string" where
  "generatePatientId rnd = ''PT-'' @ toUpperCase (substr rnd 2 8)"

definition generateDoctorId :: "string \<Rightarrow> string" where
  "generateDoctorId rnd = ''DR-'' @ toUpperCase (substr rnd 2 8)"

definition base36_upper :: "char \<Rightarrow> bool" where
  "base36_upper c = (c \<in> set ''0123456789ABCDEFGHIJKLMNOPQRSTUVWXYZ'')"

definition identity_format :: "string \<Rightarrow> string \<Rightarrow> bool" where
  \<comment> \<open>the format the specification gives: prefix, hyphen, exactly 8 uppercase base36 characters\<close>
  "identity_format pre ident =
     (take (length pre + 1) ident = pre @ ''-'' \<and>
      length (drop (length pre + 1) ident) = 8 \<and>
      list_all base36_upper (drop (length pre + 1) ident))"


section \<open>Data model of the call session\<close>

datatype role = Patient | Doctor

datatype track_kind = Video | Audio

record track =
  kind :: track_kind
  enabled :: bool
  ended :: bool

text \<open>
  A \<^verbatim>\<open>MediaStream\<close> is an object: \<open>stream_id\<close> is its identity, \<open>tracks\<close> its
  tracks in the order \<^verbatim>\<open>getTracks()\<close> lists them. Other holders of the stream (the
  preview element, a connection that was answered with it) keep the identity only.
\<close>

record media_stream =
  stream_id :: nat
  tracks :: "track list"

record video_element =
  srcObject :: "nat option"

datatype direction = Outgoing | Incoming

text \<open>
  A \<^verbatim>\<open>MediaConnection\<close> of the signalling library, reduced to what the pages use:
  \<open>remote\<close> is \<^verbatim>\<open>call.peer\<close>, \<open>sent_stream\<close> the local stream handed to
  \<^verbatim>\<open>peer.call\<close> or \<^verbatim>\<open>call.answer\<close>, \<open>close_calls\<close> counts the invocations of
  \<^verbatim>\<open>close()\<close>, and \<open>handlers\<close> records which of the two handler sets
  (\<^verbatim>\<open>stream\<close>, \<^verbatim>\<open>close\<close>, \<^verbatim>\<open>error\<close>) has been registered with \<^verbatim>\<open>call.on\<close>.
\<close>

record media_connection =
  remote :: string
  sent_stream :: "nat option"
  close_calls :: nat
  handlers :: "direction option"

datatype variant = Default | Destructive

record toast =
  title :: string
  description :: string
  variant :: "variant option"

text \<open>
  The component state: the \<^verbatim>\<open>useState\<close> cells, the three refs, the heap of
  connections created so far (a connection is addressed by its index) and the log of
  notices passed to \<^verbatim>\<open>showToast\<close>.
\<close>

record client =
  role :: role
  hasCameraPermission :: "bool option"
  isVideoMuted :: bool
  isAudioMuted :: bool
  peer :: "string option"
  peerId :: string
  remotePeerIdInput :: string
  currentCall :: "nat option"
  isConnected :: bool
  isCallActive :: bool
  hasRemoteStream :: bool
  localVideoRef :: "video_element option"
  remoteVideoRef :: "video_element option"
  localStreamRef :: "media_stream option"
  calls :: "media_connection list"
  toasts :: "toast list"

definition initial :: "role \<Rightarrow> client" where
  \<comment> \<open>the state after the first render: both video elements are mounted\<close>
  "initial r =
     \<lparr> role = r, hasCameraPermission = None, isVideoMuted = False, isAudioMuted = False,
       peer = None, peerId = [], remotePeerIdInput = [], currentCall = None,
       isConnected = False, isCallActive = False, hasRemoteStream = False,
       localVideoRef = Some \<lparr> srcObject = None \<rparr>,
       remoteVideoRef = Some \<lparr> srcObject = None \<rparr>,
       localStreamRef = None, calls = [], toasts = [] \<rparr>"

definition showToast :: "string \<Rightarrow> string \<Rightarrow> variant option \<Rightarrow> client \<Rightarrow> client" where
  "showToast t d v s = s\<lparr> toasts := toasts s @ [\<lparr> title = t, description = d, variant = v \<rparr>] \<rparr>"


section \<open>Wording that differs between the two pages\<close>

definition self_name :: "role \<Rightarrow> string" where
  "self_name r = (case r of Patient \<Rightarrow> ''Patient'' | Doctor \<Rightarrow> ''Doctor'')"

definition other_name :: "role \<Rightarrow> string" where
  "other_name r = (case r of Patient \<Rightarrow> ''Doctor'' | Doctor \<Rightarrow> ''Patient'')"

definition other_lower :: "role \<Rightarrow> string" where
  "other_lower r = (case r of Patient \<Rightarrow> ''doctor'' | Doctor \<Rightarrow> ''patient'')"

definition started_text :: "role \<Rightarrow> string" where
  "started_text r = (case r of Patient \<Rightarrow> ''Video call started with Doctor''
                             | Doctor \<Rightarrow> ''Video consultation started with Patient'')"

definition generateId :: "role \<Rightarrow> string \<Rightarrow> string" where
  "generateId r rnd = (case r of Patient \<Rightarrow> generatePatientId rnd | Doctor \<Rightarrow> generateDoctorId rnd)"


section \<open>Signalling: registration and inbound offers\<close>

definition initializePeer :: "string \<Rightarrow> client \<Rightarrow> client" where
  \<comment> \<open>\<^verbatim>\<open>new Peer(id, ...)\<close> followed by \<^verbatim>\<open>setPeer\<close>; the peer object is represented by the
      identity it was created with\<close>
  "initializePeer rnd s = s\<lparr> peer := Some (generateId (role s) rnd) \<rparr>"

definition on_open :: "string \<Rightarrow> client \<Rightarrow> client" where
  "on_open ident s =
     showToast ''Connected to Server'' (''Your '' @ self_name (role s) @ '' ID: '' @ ident) None
       (s\<lparr> peerId := ident, isConnected := True \<rparr>)"

definition on_peer_error :: "string \<Rightarrow> client \<Rightarrow> client" where
  "on_peer_error msg s =
     showToast ''Connection Error'' (''Failed to connect: '' @ msg) (Some Destructive) s"

definition bind_remote :: "nat option \<Rightarrow> client \<Rightarrow> client" where
  \<comment> \<open>\<^verbatim>\<open>if (remoteVideoRef.current) remoteVideoRef.current.srcObject = v\<close>\<close>
  "bind_remote v s =
     (case remoteVideoRef s of
        None \<Rightarrow> s
      | Some el \<Rightarrow> s\<lparr> remoteVideoRef := Some (el\<lparr> srcObject := v \<rparr>) \<rparr>)"

definition on_stream :: "nat \<Rightarrow> client \<Rightarrow> client" where
  \<comment> \<open>the \<^verbatim>\<open>stream\<close> handler, the same text on both paths\<close>
  "on_stream remoteStream s = bind_remote (Some remoteStream) (s\<lparr> hasRemoteStream := True \<rparr>)"

definition on_close :: "client \<Rightarrow> client" where
  \<comment> \<open>the \<^verbatim>\<open>close\<close> handler, the same text on both paths\<close>
  "on_close s =
     bind_remote None (s\<lparr> isCallActive := False, currentCall := None, hasRemoteStream := False \<rparr>)"

definition on_error_incoming :: "client \<Rightarrow> client" where
  \<comment> \<open>the \<^verbatim>\<open>error\<close> handler registered when an inbound offer is answered\<close>
  "on_error_incoming s =
     showToast ''Call Error'' ''There was an issue with the video call'' (Some Destructive) s"

definition on_error_outgoing :: "client \<Rightarrow> client" where
  \<comment> \<open>the \<^verbatim>\<open>error\<close> handler registered by \<^verbatim>\<open>makeCall\<close>\<close>
  "on_error_outgoing s =
     showToast ''Call Failed''
       (''Could not connect to '' @ other_lower (role s) @ ''. Please check the ''
          @ other_name (role s) @ '' ID.'')
       (Some Destructive)
       (s\<lparr> isCallActive := False, currentCall := None, hasRemoteStream := False \<rparr>)"

definition new_connection :: "string \<Rightarrow> media_connection" where
  "new_connection from = \<lparr> remote = from, sent_stream = None, close_calls = 0, handlers = None \<rparr>"

definition update_call :: "nat \<Rightarrow> (media_connection \<Rightarrow> media_connection) \<Rightarrow> client \<Rightarrow> client" where
  \<comment> \<open>a method call on the connection at address \<open>c\<close>\<close>
  "update_call c f s =
     (if c < length (calls s) then s\<lparr> calls := (calls s)[c := f (calls s ! c)] \<rparr> else s)"

definition on_call :: "nat \<Rightarrow> client \<Rightarrow> client" where
  \<comment> \<open>the \<^verbatim>\<open>call\<close> handler of the peer; \<open>c\<close> is the connection the library passes in\<close>
  "on_call c s =
     (case localStreamRef s of
        Some stream \<Rightarrow>
          showToast (other_name (role s) @ '' Connected!'') (started_text (role s)) None
            ((update_call c (\<lambda>m. m\<lparr> sent_stream := Some (stream_id stream),
                                     handlers := Some Incoming \<rparr>) s)
               \<lparr> currentCall := Some c, isCallActive := True \<rparr>)
      | None \<Rightarrow>
          showToast ''Cannot Answer Call'' ''Camera not ready. Please refresh and try again.''
            (Some Destructive) s)"

definition peer_call :: "string \<Rightarrow> client \<Rightarrow> client" where
  \<comment> \<open>an inbound offer: the library creates the connection, then runs the \<^verbatim>\<open>call\<close> handler\<close>
  "peer_call from s = on_call (length (calls s)) (s\<lparr> calls := calls s @ [new_connection from] \<rparr>)"

datatype call_event = Stream nat | Close | Error

definition call_emit :: "nat \<Rightarrow> call_event \<Rightarrow> client \<Rightarrow> client" where
  \<comment> \<open>an event on connection \<open>c\<close> runs the handler registered for it, if any\<close>
  "call_emit c ev s =
     (if c < length (calls s) then
        (case handlers (calls s ! c) of
           None \<Rightarrow> s
         | Some d \<Rightarrow>
            (case ev of
               Stream remoteStream \<Rightarrow> on_stream remoteStream s
             | Close \<Rightarrow> on_close s
             | Error \<Rightarrow> (case d of Incoming \<Rightarrow> on_error_incoming s
                                  | Outgoing \<Rightarrow> on_error_outgoing s)))
      else s)"


section \<open>Media acquisition\<close>

datatype camera_result = Unsupported | Granted nat "track_kind list" | Denied

definition fresh_stream :: "nat \<Rightarrow> track_kind list \<Rightarrow> media_stream" where
  \<comment> \<open>a stream as \<^verbatim>\<open>getUserMedia\<close> delivers it: every track live and enabled\<close>
  "fresh_stream i ks =
     \<lparr> stream_id = i, tracks = map (\<lambda>k. \<lparr> kind = k, enabled = True, ended = False \<rparr>) ks \<rparr>"

definition getCameraPermission :: "camera_result \<Rightarrow> client \<Rightarrow> client" where
  "getCameraPermission res s =
     (case res of
        Unsupported \<Rightarrow>
          showToast ''Unsupported Browser'' ''Your browser does not support camera access.''
            (Some Destructive) (s\<lparr> hasCameraPermission := Some False \<rparr>)
      | Granted i ks \<Rightarrow>
          showToast ''Camera Ready'' ''Your camera and microphone are ready for consultation'' None
            ((case localVideoRef s of
                None \<Rightarrow> (\<lambda>x. x)
              | Some el \<Rightarrow> (\<lambda>x. x\<lparr> localVideoRef := Some (el\<lparr> srcObject := Some i \<rparr>) \<rparr>))
               (s\<lparr> hasCameraPermission := Some True, localStreamRef := Some (fresh_stream i ks) \<rparr>))
      | Denied \<Rightarrow>
          showToast ''Camera Access Denied'' ''Please enable camera and microphone permissions.''
            (Some Destructive) (s\<lparr> hasCameraPermission := Some False \<rparr>))"

definition stop_tracks :: "client \<Rightarrow> client" where
  \<comment> \<open>the cleanup of the media effect, the only place where a track is stopped\<close>
  "stop_tracks s =
     (case localStreamRef s of
        None \<Rightarrow> s
      | Some stream \<Rightarrow>
          s\<lparr> localStreamRef := Some (stream\<lparr> tracks := map (\<lambda>t. t\<lparr> ended := True \<rparr>) (tracks stream) \<rparr>) \<rparr>)"


section \<open>Commands\<close>

definition cannot_make_call :: "client \<Rightarrow> client" where
  "cannot_make_call s =
     showToast ''Cannot Make Call''
       (''Please ensure you're connected and have entered a '' @ other_lower (role s) @ '' ID'')
       (Some Destructive) s"

definition makeCall :: "client \<Rightarrow> client" where
  \<comment> \<open>\<^verbatim>\<open>peer.call\<close> returns a connection, as the page assumes when it registers the three
      handlers on the result; the connection is created at the next free address\<close>
  "makeCall s =
     (if peer s = None \<or> remotePeerIdInput s = [] \<or> localStreamRef s = None then
        cannot_make_call s
      else
        showToast (''Calling '' @ other_name (role s) @ ''...'')
          (''Connecting to '' @ other_name (role s) @ '' ID: '' @ remotePeerIdInput s) None
          (s\<lparr> calls := calls s @
                 [\<lparr> remote = remotePeerIdInput s,
                    sent_stream = map_option stream_id (localStreamRef s),
                    close_calls = 0, handlers = Some Outgoing \<rparr>],
               currentCall := Some (length (calls s)),
               isCallActive := True \<rparr>))"

text \<open>
  \<^verbatim>\<open>endCall\<close> is a closure of the render that created it: its guard reads the value of
  \<open>currentCall\<close> which that render captured. \<open>endCall_closure cap\<close> is the closure of a
  render with \<open>currentCall = cap\<close>; \<open>endCall\<close> is the closure of the committed render,
  which is the one a click on the End Call button runs. \<^verbatim>\<open>currentCall.close()\<close> is recorded
  on the connection; a \<^verbatim>\<open>close\<close> event that the library emits in response is a separate
  \<open>call_emit\<close>.
\<close>

definition endCall_closure :: "nat option \<Rightarrow> client \<Rightarrow> client" where
  "endCall_closure cap s =
     (case cap of
        Some c \<Rightarrow>
          showToast ''Call Ended'' ''The consultation has been terminated'' None
            (bind_remote None
               ((update_call c (\<lambda>m. m\<lparr> close_calls := Suc (close_calls m) \<rparr>) s)
                  \<lparr> currentCall := None, isCallActive := False, hasRemoteStream := False \<rparr>))
      | None \<Rightarrow> s)"

definition endCall :: "client \<Rightarrow> client" where
  "endCall s = endCall_closure (currentCall s) s"

definition getTracksOf :: "track_kind \<Rightarrow> media_stream \<Rightarrow> track list" where
  \<comment> \<open>\<^verbatim>\<open>getVideoTracks()\<close> and \<^verbatim>\<open>getAudioTracks()\<close>\<close>
  "getTracksOf k stream = filter (\<lambda>t. kind t = k) (tracks stream)"

fun set_first_enabled :: "track_kind \<Rightarrow> bool \<Rightarrow> track list \<Rightarrow> track list" where
  "set_first_enabled k b [] = []"
| "set_first_enabled k b (t # ts) =
     (if kind t = k then t\<lparr> enabled := b \<rparr> # ts else t # set_first_enabled k b ts)"

definition toggleVideo :: "client \<Rightarrow> client" where
  "toggleVideo s =
     (case localStreamRef s of
        None \<Rightarrow> s
      | Some stream \<Rightarrow>
          (case getTracksOf Video stream of
             [] \<Rightarrow> s
           | videoTrack # _ \<Rightarrow>
               (let e = \<not> enabled videoTrack
                in s\<lparr> localStreamRef := Some (stream\<lparr> tracks := set_first_enabled Video e (tracks stream) \<rparr>),
                      isVideoMuted := \<not> e \<rparr>)))"

definition toggleAudio :: "client \<Rightarrow> client" where
  "toggleAudio s =
     (case localStreamRef s of
        None \<Rightarrow> s
      | Some stream \<Rightarrow>
          (case getTracksOf Audio stream of
             [] \<Rightarrow> s
           | audioTrack # _ \<Rightarrow>
               (let e = \<not> enabled audioTrack
                in s\<lparr> localStreamRef := Some (stream\<lparr> tracks := set_first_enabled Audio e (tracks stream) \<rparr>),
                      isAudioMuted := \<not> e \<rparr>)))"


section \<open>Event loop and reachable states\<close>

text \<open>
  Execution is single-threaded: every handler and every command runs to completion on the
  committed state. The environment is constrained only where the platform constrains it:
  the peer is created once, relay events need a peer, a connection event needs an existing
  connection, and the one \<^verbatim>\<open>getUserMedia\<close> promise settles once. For \<open>reachable\<close> a
  command may be issued in every state, which over-approximates the running page;
  \<open>page_reachable\<close> admits a command only where the page renders its control enabled.
\<close>

datatype event =
    InitializePeer string
  | PeerOpen string
  | PeerCall string
  | PeerError string
  | CallEvent nat call_event
  | CameraResult camera_result
  | SetRemotePeerIdInput string
  | MakeCall
  | EndCall
  | ToggleVideo
  | ToggleAudio

fun step :: "event \<Rightarrow> client \<Rightarrow> client" where
  "step (InitializePeer rnd) s = initializePeer rnd s"
| "step (PeerOpen ident) s = on_open ident s"
| "step (PeerCall from) s = peer_call from s"
| "step (PeerError msg) s = on_peer_error msg s"
| "step (CallEvent c ev) s = call_emit c ev s"
| "step (CameraResult res) s = getCameraPermission res s"
| "step (SetRemotePeerIdInput v) s = s\<lparr> remotePeerIdInput := v \<rparr>"
| "step MakeCall s = makeCall s"
| "step EndCall s = endCall s"
| "step ToggleVideo s = toggleVideo s"
| "step ToggleAudio s = toggleAudio s"

fun admissible :: "client \<Rightarrow> event \<Rightarrow> bool" where
  "admissible s (InitializePeer rnd) = (peer s = None)"
| "admissible s (PeerOpen ident) = (peer s \<noteq> None)"
| "admissible s (PeerCall from) = (peer s \<noteq> None)"
| "admissible s (PeerError msg) = (peer s \<noteq> None)"
| "admissible s (CallEvent c ev) = (c < length (calls s))"
| "admissible s (CameraResult res) = (hasCameraPermission s = None)"
| "admissible s _ = True"

fun run :: "event list \<Rightarrow> client \<Rightarrow> client" where
  "run [] s = s"
| "run (e # es) s = run es (step e s)"

inductive reachable :: "client \<Rightarrow> bool" where
  start: "reachable (initial r)"
| next_event: "reachable s \<Longrightarrow> admissible s e \<Longrightarrow> reachable (step e s)"

fun admissible_run :: "client \<Rightarrow> event list \<Rightarrow> bool" where
  "admissible_run s [] = True"
| "admissible_run s (e # es) = (admissible s e \<and> admissible_run (step e s) es)"

text \<open>
  The controls of the page. The identity input and the Call button are rendered under
  \<^verbatim>\<open>{!isCallActive && ...}\<close>, the button with
  \<^verbatim>\<open>disabled={!remotePeerIdInput || !isConnected}\<close>; the End Call button has
  \<^verbatim>\<open>disabled={!isCallActive}\<close> and the two mute buttons \<^verbatim>\<open>disabled={!hasCameraPermission}\<close>.
  These buttons are the only callers of the four commands.
\<close>

fun page_admissible :: "client \<Rightarrow> event \<Rightarrow> bool" where
  "page_admissible s MakeCall = (\<not> isCallActive s \<and> remotePeerIdInput s \<noteq> [] \<and> isConnected s)"
| "page_admissible s (SetRemotePeerIdInput v) = (\<not> isCallActive s)"
| "page_admissible s EndCall = isCallActive s"
| "page_admissible s ToggleVideo = (hasCameraPermission s = Some True)"
| "page_admissible s ToggleAudio = (hasCameraPermission s = Some True)"
| "page_admissible s e = admissible s e"

inductive page_reachable :: "client \<Rightarrow> bool" where
  page_start: "page_reachable (initial r)"
| page_next: "page_reachable s \<Longrightarrow> page_admissible s e \<Longrightarrow> page_reachable (step e s)"

fun page_admissible_run :: "client \<Rightarrow> event list \<Rightarrow> bool" where
  "page_admissible_run s [] = True"
| "page_admissible_run s (e # es) = (page_admissible s e \<and> page_admissible_run (step e s) es)"

definition click :: "event \<Rightarrow> client \<Rightarrow> client" where
  \<comment> \<open>a click runs the command of the committed render; on a control that is hidden or
      disabled it runs nothing\<close>
  "click e s = (if page_admissible s e then step e s else s)"


section \<open>Observations used in the statements\<close>

definition first_enabled :: "track_kind \<Rightarrow> media_stream option \<Rightarrow> bool" where
  \<comment> \<open>the \<^verbatim>\<open>enabled\<close> flag of the track that \<^verbatim>\<open>getVideoTracks()[0]\<close> or
      \<^verbatim>\<open>getAudioTracks()[0]\<close> selects; \<open>True\<close> when there is no such track\<close>
  "first_enabled k so =
     (case so of
        None \<Rightarrow> True
      | Some stream \<Rightarrow> (case getTracksOf k stream of [] \<Rightarrow> True | t # _ \<Rightarrow> enabled t))"

definition mute_flags_agree :: "client \<Rightarrow> bool" where
  "mute_flags_agree s =
     (isVideoMuted s = (\<not> first_enabled Video (localStreamRef s)) \<and>
      isAudioMuted s = (\<not> first_enabled Audio (localStreamRef s)) \<and>
      (hasCameraPermission s = None \<longrightarrow> localStreamRef s = None))"


section \<open>Concrete sessions\<close>

text \<open>
  \<open>scenario_ready\<close>: the patient page has registered as \<^verbatim>\<open>PT-ABC12345\<close> and the camera
  is granted. \<open>scenario_answered\<close>: an offer from \<^verbatim>\<open>DR-XYZ98765\<close> has then been answered;
  \<open>scenario_active\<close>: its remote stream has arrived. \<open>scenario_typed\<close>: in
  \<open>scenario_ready\<close> the identity \<^verbatim>\<open>DR-NOTFOUND\<close> has been typed; \<open>scenario_calling\<close>:
  and called. \<open>scenario_busy\<close>: a doctor identity was typed before the offer from
  \<^verbatim>\<open>DR-XYZ98765\<close> was answered. \<open>scenario_denied\<close>: registered, camera denied;
  \<open>scenario_denied_typed\<close>: and a doctor identity typed. \<open>scenario_audio_only\<close>: a
  stream without a video track.
\<close>

definition scenario_ready :: client where
  "scenario_ready =
     run [InitializePeer ''0.abc12345xyz'', PeerOpen ''PT-ABC12345'',
          CameraResult (Granted 1 [Video, Audio])] (initial Patient)"

definition scenario_answered :: client where
  "scenario_answered = run [PeerCall ''DR-XYZ98765''] scenario_ready"

definition scenario_active :: client where
  "scenario_active = run [CallEvent 0 (Stream 2)] scenario_answered"

definition scenario_calling :: client where
  "scenario_calling = run [SetRemotePeerIdInput ''DR-NOTFOUND'', MakeCall] scenario_ready"

definition scenario_busy :: client where
  "scenario_busy = run [SetRemotePeerIdInput ''DR-OTHER001'', PeerCall ''DR-XYZ98765''] scenario_ready"

definition scenario_denied :: client where
  "scenario_denied =
     run [InitializePeer ''0.abc12345xyz'', PeerOpen ''PT-ABC12345'', CameraResult Denied]
       (initial Patient)"

definition scenario_typed :: client where
  "scenario_typed = run [SetRemotePeerIdInput ''DR-NOTFOUND''] scenario_ready"

definition scenario_denied_typed :: client where
  "scenario_denied_typed = run [SetRemotePeerIdInput ''DR-XYZ98765''] scenario_denied"

definition scenario_audio_only :: client where
  "scenario_audio_only = run [CameraResult (Granted 1 [Audio])] (initial Doctor)"
section \<open>The identity format\<close>

lemma generated_suffix_length:
  "length (drop 3 (generatePatientId rnd)) = min 8 (length rnd - 2) \<and>
   length (drop 3 (generateDoctorId rnd)) = min 8 (length rnd - 2)"
  by (simp add: generatePatientId_def generateDoctorId_def toUpperCase_def substr_def min.commute)

text \<open>
  C6: every generated identity is the role prefix, a hyphen and exactly 8 uppercase
  base36 characters, whatever the random source returns. \<^verbatim>\<open>substr(2, 8)\<close> asks for 8
  characters but nothing pads a shorter string. For \<^verbatim>\<open>Math.random() = 0.5\<close> the string is
  \<^verbatim>\<open>"0.i"\<close> and the identities are \<^verbatim>\<open>PT-I\<close> and \<^verbatim>\<open>DR-I\<close>; for \<^verbatim>\<open>Math.random() = 0\<close>
  the string is \<^verbatim>\<open>"0"\<close> and the identities are the bare \<^verbatim>\<open>PT-\<close> and \<^verbatim>\<open>DR-\<close>. With
  a long fraction, as in \<^verbatim>\<open>"0.4fzyo82mvyr"\<close>, the format is met.
\<close>

theorem short_random_string_gives_short_identity:
  "generatePatientId ''0.i'' = ''PT-I'' \<and> generateDoctorId ''0.i'' = ''DR-I'' \<and>
   \<not> identity_format ''PT'' (generatePatientId ''0.i'') \<and>
   \<not> identity_format ''DR'' (generateDoctorId ''0.i'') \<and>
   generatePatientId ''0'' = ''PT-'' \<and> generateDoctorId ''0'' = ''DR-'' \<and>
   \<not> identity_format ''PT'' (generatePatientId ''0'') \<and>
   \<not> identity_format ''DR'' (generateDoctorId ''0'') \<and>
   generatePatientId ''0.4fzyo82mvyr'' = ''PT-4FZYO82M'' \<and>
   identity_format ''PT'' (generatePatientId ''0.4fzyo82mvyr'')"
  by (simp add: generatePatientId_def generateDoctorId_def toUpperCase_def substr_def
        upper_char_def identity_format_def base36_upper_def)


section \<open>Tracks and mute flags\<close>

lemmas handler_defs =
  showToast_def bind_remote_def on_open_def on_peer_error_def on_stream_def on_close_def
  on_error_incoming_def on_error_outgoing_def update_call_def on_call_def peer_call_def
  call_emit_def getCameraPermission_def makeCall_def cannot_make_call_def endCall_def
  endCall_closure_def
  toggleVideo_def toggleAudio_def initializePeer_def new_connection_def

lemma first_track_same_kind:
  "filter (\<lambda>t. kind t = k) ts = t # rest \<Longrightarrow>
   filter (\<lambda>t. kind t = k) (set_first_enabled k b ts) = t\<lparr> enabled := b \<rparr> # rest"
  by (induction ts) (auto split: if_splits)

lemma first_track_other_kind:
  "k' \<noteq> k \<Longrightarrow>
   filter (\<lambda>t. kind t = k') (set_first_enabled k b ts) = filter (\<lambda>t. kind t = k') ts"
  by (induction ts) auto

lemma set_first_enabled_restore:
  "filter (\<lambda>t. kind t = k) ts = t # rest \<Longrightarrow> set_first_enabled k (enabled t) ts = ts"
  by (induction ts) (auto split: if_splits)

lemma set_first_enabled_twice:
  "set_first_enabled k b (set_first_enabled k b' ts) = set_first_enabled k b ts"
  by (induction ts) auto

lemma first_enabled_set_same:
  "getTracksOf k st = t # rest \<Longrightarrow>
   first_enabled k (Some (st\<lparr> tracks := set_first_enabled k b (tracks st) \<rparr>)) = b"
  by (simp add: first_enabled_def getTracksOf_def first_track_same_kind)

lemma first_enabled_set_other:
  "k' \<noteq> k \<Longrightarrow>
   first_enabled k' (Some (st\<lparr> tracks := set_first_enabled k b (tracks st) \<rparr>)) = first_enabled k' (Some st)"
  by (simp add: first_enabled_def getTracksOf_def first_track_other_kind)

lemma first_enabled_None: "first_enabled k None"
  by (simp add: first_enabled_def)

lemma first_enabled_fresh: "first_enabled k (Some (fresh_stream i ks))"
proof (cases "getTracksOf k (fresh_stream i ks)")
  case Nil
  then show ?thesis by (simp add: first_enabled_def)
next
  case (Cons t rest)
  then have "t \<in> set (getTracksOf k (fresh_stream i ks))" by simp
  then have "enabled t" by (auto simp: getTracksOf_def fresh_stream_def)
  with Cons show ?thesis by (simp add: first_enabled_def)
qed

lemma stop_tracks_ends_all:
  "localStreamRef (stop_tracks s) = Some st' \<Longrightarrow> t \<in> set (tracks st') \<Longrightarrow> ended t"
  by (auto simp: stop_tracks_def split: option.splits)

lemma toggleVideo_present:
  assumes "localStreamRef s = Some st" and "getTracksOf Video st = t # rest"
  shows "toggleVideo s =
           s\<lparr> localStreamRef := Some (st\<lparr> tracks := set_first_enabled Video (\<not> enabled t) (tracks st) \<rparr>),
              isVideoMuted := enabled t \<rparr>"
  using assms by (simp add: toggleVideo_def Let_def)

lemma toggleAudio_present:
  assumes "localStreamRef s = Some st" and "getTracksOf Audio st = t # rest"
  shows "toggleAudio s =
           s\<lparr> localStreamRef := Some (st\<lparr> tracks := set_first_enabled Audio (\<not> enabled t) (tracks st) \<rparr>),
              isAudioMuted := enabled t \<rparr>"
  using assms by (simp add: toggleAudio_def Let_def)

lemma toggleVideo_absent:
  "localStreamRef s = None \<or> (\<exists>st. localStreamRef s = Some st \<and> getTracksOf Video st = []) \<Longrightarrow>
   toggleVideo s = s"
  by (auto simp: toggleVideo_def)

lemma toggleAudio_absent:
  "localStreamRef s = None \<or> (\<exists>st. localStreamRef s = Some st \<and> getTracksOf Audio st = []) \<Longrightarrow>
   toggleAudio s = s"
  by (auto simp: toggleAudio_def)

lemma mute_toggleVideo: "mute_flags_agree s \<Longrightarrow> mute_flags_agree (toggleVideo s)"
proof (cases "localStreamRef s")
  case None
  assume "mute_flags_agree s"
  with None show ?thesis by (simp add: toggleVideo_absent)
next
  case (Some st)
  assume a: "mute_flags_agree s"
  show ?thesis
  proof (cases "getTracksOf Video st")
    case Nil
    with Some a show ?thesis by (simp add: toggleVideo_absent)
  next
    case (Cons t rest)
    show ?thesis
      using a unfolding toggleVideo_present [OF Some Cons] mute_flags_agree_def
      by (simp add: Some first_enabled_set_same [OF Cons] first_enabled_set_other)
  qed
qed

lemma mute_toggleAudio: "mute_flags_agree s \<Longrightarrow> mute_flags_agree (toggleAudio s)"
proof (cases "localStreamRef s")
  case None
  assume "mute_flags_agree s"
  with None show ?thesis by (simp add: toggleAudio_absent)
next
  case (Some st)
  assume a: "mute_flags_agree s"
  show ?thesis
  proof (cases "getTracksOf Audio st")
    case Nil
    with Some a show ?thesis by (simp add: toggleAudio_absent)
  next
    case (Cons t rest)
    show ?thesis
      using a unfolding toggleAudio_present [OF Some Cons] mute_flags_agree_def
      by (simp add: Some first_enabled_set_same [OF Cons] first_enabled_set_other)
  qed
qed


section \<open>Invariants of the reachable states\<close>

text \<open>The mute indicators always mirror the tracks that the toggles address.\<close>

lemma mute_flags_follow_tracks:
  assumes "reachable s"
  shows "mute_flags_agree s"
  using assms
proof (induction rule: reachable.induct)
  case (start r)
  show ?case by (simp add: initial_def mute_flags_agree_def first_enabled_def)
next
  case (next_event s e)
  show ?case
  proof (cases e)
    case (CameraResult res)
    with next_event show ?thesis
      by (cases res)
         (auto simp: mute_flags_agree_def handler_defs first_enabled_fresh first_enabled_None
               split: option.splits)
  next
    case ToggleVideo
    with next_event show ?thesis by (simp add: mute_toggleVideo)
  next
    case ToggleAudio
    with next_event show ?thesis by (simp add: mute_toggleAudio)
  qed (use next_event in \<open>auto simp: mute_flags_agree_def handler_defs Let_def
             split: option.splits call_event.splits direction.splits if_splits\<close>)
qed

text \<open>The stored connection exists and carries one of the two handler sets.\<close>

lemma current_call_registered:
  assumes "reachable s"
  shows "\<forall>c. currentCall s = Some c \<longrightarrow> c < length (calls s) \<and> handlers (calls s ! c) \<noteq> None"
  using assms
proof (induction rule: reachable.induct)
  case (start r)
  show ?case by (simp add: initial_def)
next
  case (next_event s e)
  then show ?case
    by (cases e)
       (auto simp: handler_defs Let_def nth_append
             split: option.splits call_event.splits direction.splits camera_result.splits
                    list.splits if_splits)
qed

text \<open>
  Without a local stream nothing has ever been answered or placed: \<open>localStreamRef\<close> is
  never reset, and both ways of creating a session test it.
\<close>

lemma no_media_idle:
  assumes "reachable s" and "localStreamRef s = None"
  shows "currentCall s = None \<and> \<not> isCallActive s \<and> \<not> hasRemoteStream s \<and>
         (\<forall>m \<in> set (calls s). handlers m = None \<and> sent_stream m = None \<and> close_calls m = 0)"
  using assms
proof (induction rule: reachable.induct)
  case (start r)
  show ?case by (simp add: initial_def)
next
  case (next_event s e)
  then show ?case
    by (cases e)
       (auto simp: handler_defs Let_def nth_append
             split: option.splits call_event.splits direction.splits camera_result.splits
                    list.splits if_splits)
qed


text \<open>The two cells of a session are always set together.\<close>

lemma active_iff_stored:
  assumes "reachable s"
  shows "isCallActive s = (currentCall s \<noteq> None)"
  using assms
proof (induction rule: reachable.induct)
  case (start r)
  show ?case by (simp add: initial_def)
next
  case (next_event s e)
  then show ?case
    by (cases e)
       (auto simp: handler_defs Let_def
             split: option.splits call_event.splits direction.splits camera_result.splits
                    list.splits if_splits)
qed

text \<open>The \<^verbatim>\<open>open\<close> event comes from a peer that exists.\<close>

lemma connected_has_peer:
  assumes "reachable s" and "isConnected s"
  shows "peer s \<noteq> None"
  using assms
proof (induction rule: reachable.induct)
  case (start r)
  then show ?case by (simp add: initial_def)
next
  case (next_event s e)
  then show ?case
    by (cases e)
       (auto simp: handler_defs Let_def
             split: option.splits call_event.splits direction.splits camera_result.splits
                    list.splits if_splits)
qed

text \<open>Every state of the page is a state of the over-approximation.\<close>

lemma page_admissible_admissible: "page_admissible s e \<Longrightarrow> admissible s e"
  by (cases e) simp_all

lemma page_reachable_reachable: "page_reachable s \<Longrightarrow> reachable s"
  by (induction rule: page_reachable.induct)
     (auto intro: reachable.intros page_admissible_admissible)


section \<open>The concrete sessions are reachable\<close>

lemmas eval_defs = handler_defs initial_def generateId_def generatePatientId_def generateDoctorId_def
  toUpperCase_def substr_def upper_char_def fresh_stream_def self_name_def other_name_def
  other_lower_def started_text_def getTracksOf_def

lemmas scenario_defs = scenario_ready_def scenario_answered_def scenario_active_def
  scenario_typed_def scenario_calling_def scenario_busy_def scenario_denied_def
  scenario_denied_typed_def scenario_audio_only_def

lemma reachable_run: "reachable s \<Longrightarrow> admissible_run s es \<Longrightarrow> reachable (run es s)"
  by (induction es arbitrary: s) (auto intro: reachable.next_event)

lemma scenario_ready_reachable: "reachable scenario_ready"
  unfolding scenario_ready_def
  by (rule reachable_run [OF reachable.start]) (simp add: eval_defs)

lemma scenario_answered_reachable: "reachable scenario_answered"
  unfolding scenario_answered_def
  by (rule reachable_run [OF scenario_ready_reachable]) (simp add: scenario_ready_def eval_defs)

lemma scenario_active_reachable: "reachable scenario_active"
  unfolding scenario_active_def
  by (rule reachable_run [OF scenario_answered_reachable])
     (simp add: scenario_answered_def scenario_ready_def eval_defs)

lemma scenario_denied_reachable: "reachable scenario_denied"
  unfolding scenario_denied_def
  by (rule reachable_run [OF reachable.start]) (simp add: eval_defs)

lemma page_reachable_run:
  "page_reachable s \<Longrightarrow> page_admissible_run s es \<Longrightarrow> page_reachable (run es s)"
  by (induction es arbitrary: s) (auto intro: page_reachable.page_next)

lemma scenario_ready_on_page: "page_reachable scenario_ready"
  unfolding scenario_ready_def
  by (rule page_reachable_run [OF page_reachable.page_start]) (simp add: eval_defs)

lemma scenario_typed_on_page: "page_reachable scenario_typed"
  unfolding scenario_typed_def
  by (rule page_reachable_run [OF scenario_ready_on_page]) (simp add: scenario_ready_def eval_defs)

lemma scenario_busy_on_page: "page_reachable scenario_busy"
  unfolding scenario_busy_def
  by (rule page_reachable_run [OF scenario_ready_on_page]) (simp add: scenario_ready_def eval_defs)

lemma scenario_active_on_page: "page_reachable scenario_active"
  unfolding scenario_active_def scenario_answered_def
  by (rule page_reachable_run [OF page_reachable_run [OF scenario_ready_on_page]])
     (simp_all add: scenario_ready_def eval_defs)

lemma scenario_denied_on_page: "page_reachable scenario_denied"
  unfolding scenario_denied_def
  by (rule page_reachable_run [OF page_reachable.page_start]) (simp add: eval_defs)

lemma scenario_denied_typed_on_page: "page_reachable scenario_denied_typed"
  unfolding scenario_denied_typed_def
  by (rule page_reachable_run [OF scenario_denied_on_page]) (simp add: scenario_denied_def eval_defs)


section \<open>Errors on a connection\<close>

text \<open>
  C1: an \<^verbatim>\<open>error\<close> event on the connection of any session, outgoing or incoming, returns
  the client to Idle, emits a notice and leaves the registration alone. The two handlers
  differ. In \<open>scenario_calling\<close> (outgoing) the error resets the three session cells. In
  \<open>scenario_answered\<close> (incoming) the handler only shows the notice: the call stays active
  and the connection stays stored. The registration cells are untouched on both paths.
\<close>

theorem incoming_error_leaves_call_active:
  "currentCall scenario_answered = Some 0 \<and>
   handlers (calls scenario_answered ! 0) = Some Incoming \<and>
   isCallActive (call_emit 0 Error scenario_answered) \<and>
   currentCall (call_emit 0 Error scenario_answered) = Some 0 \<and>
   toasts (call_emit 0 Error scenario_answered) =
     toasts scenario_answered @
       [\<lparr> title = ''Call Error'', description = ''There was an issue with the video call'',
          variant = Some Destructive \<rparr>] \<and>
   isConnected (call_emit 0 Error scenario_answered) = isConnected scenario_answered \<and>
   peer (call_emit 0 Error scenario_answered) = peer scenario_answered \<and>
   currentCall scenario_calling = Some 0 \<and>
   handlers (calls scenario_calling ! 0) = Some Outgoing \<and>
   \<not> isCallActive (call_emit 0 Error scenario_calling) \<and>
   currentCall (call_emit 0 Error scenario_calling) = None \<and>
   \<not> hasRemoteStream (call_emit 0 Error scenario_calling) \<and>
   isConnected (call_emit 0 Error scenario_calling) = isConnected scenario_calling \<and>
   peer (call_emit 0 Error scenario_calling) = peer scenario_calling"
  by (simp add: scenario_defs eval_defs)


section \<open>A second session during a call\<close>

text \<open>
  C2, as stated: a second session attempted while one is active is rejected and does not
  replace the stored connection. In \<open>scenario_busy\<close>, a state of the page, a call with
  \<^verbatim>\<open>DR-XYZ98765\<close> is active on connection 0. A further inbound offer is answered and
  stored as connection 1; connection 0 keeps its handlers and is not closed.
\<close>

theorem second_offer_replaces_call_counterexample:
  "page_reachable scenario_busy \<and> page_admissible scenario_busy (PeerCall ''DR-OTHER001'') \<and>
   isCallActive scenario_busy \<and> currentCall scenario_busy = Some 0 \<and>
   currentCall (peer_call ''DR-OTHER001'' scenario_busy) = Some 1 \<and>
   remote (calls (peer_call ''DR-OTHER001'' scenario_busy) ! 1) = ''DR-OTHER001'' \<and>
   sent_stream (calls (peer_call ''DR-OTHER001'' scenario_busy) ! 1) = Some 1 \<and>
   handlers (calls (peer_call ''DR-OTHER001'' scenario_busy) ! 0) = Some Incoming \<and>
   close_calls (calls (peer_call ''DR-OTHER001'' scenario_busy) ! 0) = 0"
  using scenario_busy_on_page by (simp add: scenario_defs eval_defs)

text \<open>
  C2, amended: the client stores at most one connection (\<open>currentCall\<close> is one cell).
  \<^verbatim>\<open>makeCall\<close> cannot create a second session: the page offers the Call button only while
  no call is active, and then no connection is stored. An inbound offer that arrives
  during an active call is not rejected: whenever the local stream is present it is
  answered, its connection goes to the next free address and replaces \<open>currentCall\<close>,
  and every earlier connection is left as it was.
\<close>

theorem only_inbound_offer_replaces_call:
  assumes "page_reachable s"
  shows "(page_admissible s MakeCall \<longrightarrow> currentCall s = None \<and> \<not> isCallActive s) \<and>
         (isCallActive s \<longrightarrow> \<not> page_admissible s MakeCall \<and> click MakeCall s = s) \<and>
         (\<forall>st. localStreamRef s = Some st \<longrightarrow>
            currentCall (peer_call from s) = Some (length (calls s)) \<and>
            isCallActive (peer_call from s) \<and>
            calls (peer_call from s) =
              calls s @ [\<lparr> remote = from, sent_stream = Some (stream_id st), close_calls = 0,
                           handlers = Some Incoming \<rparr>])"
proof -
  have "isCallActive s = (currentCall s \<noteq> None)"
    by (rule active_iff_stored [OF page_reachable_reachable [OF assms]])
  then show ?thesis by (auto simp: handler_defs click_def)
qed

text \<open>
  C2, amended, at \<open>scenario_typed\<close> (Call button enabled: nothing stored) and at
  \<open>scenario_busy\<close> (call active: no Call button, and a second offer replaces the call).
\<close>

theorem only_inbound_offer_replaces_call_witness:
  "page_reachable scenario_typed \<and> page_admissible scenario_typed MakeCall \<and>
   currentCall scenario_typed = None \<and>
   page_reachable scenario_busy \<and> isCallActive scenario_busy \<and>
   \<not> page_admissible scenario_busy MakeCall \<and>
   localStreamRef scenario_busy =
     Some \<lparr> stream_id = 1, tracks = [\<lparr> kind = Video, enabled = True, ended = False \<rparr>,
                                       \<lparr> kind = Audio, enabled = True, ended = False \<rparr>] \<rparr> \<and>
   currentCall scenario_busy = Some 0 \<and>
   currentCall (peer_call ''DR-OTHER001'' scenario_busy) = Some 1 \<and>
   calls (peer_call ''DR-OTHER001'' scenario_busy) =
     calls scenario_busy @
       [\<lparr> remote = ''DR-OTHER001'', sent_stream = Some 1, close_calls = 0,
          handlers = Some Incoming \<rparr>]"
proof -
  have t: "page_admissible scenario_typed MakeCall"
    by (simp add: scenario_defs eval_defs)
  have h: "localStreamRef scenario_busy =
     Some \<lparr> stream_id = 1, tracks = [\<lparr> kind = Video, enabled = True, ended = False \<rparr>,
                                       \<lparr> kind = Audio, enabled = True, ended = False \<rparr>] \<rparr>"
    by (simp add: scenario_defs eval_defs)
  have c: "currentCall scenario_busy = Some 0" "length (calls scenario_busy) = 1"
    "isCallActive scenario_busy"
    by (simp_all add: scenario_defs eval_defs)
  from only_inbound_offer_replaces_call [OF scenario_typed_on_page] t
  have 1: "currentCall scenario_typed = None" by blast
  from only_inbound_offer_replaces_call [OF scenario_busy_on_page, of "''DR-OTHER001''"] h c
  have 2: "\<not> page_admissible scenario_busy MakeCall"
    and 3: "currentCall (peer_call ''DR-OTHER001'' scenario_busy) = Some 1"
    and 4: "calls (peer_call ''DR-OTHER001'' scenario_busy) =
     calls scenario_busy @
       [\<lparr> remote = ''DR-OTHER001'', sent_stream = Some 1, close_calls = 0,
          handlers = Some Incoming \<rparr>]"
    by simp_all
  from scenario_typed_on_page scenario_busy_on_page t h c 1 2 3 4 show ?thesis by simp
qed


section \<open>Inbound offers\<close>

text \<open>
  C3: an inbound offer that arrives while the local stream is absent leaves the session
  Idle: the client was Idle, the offer's connection is neither answered nor given
  handlers nor stored, no stream is acquired, and the only change besides the library's
  new connection object is exactly one destructive ``Cannot Answer Call'' notice.
\<close>

theorem offer_without_media_stays_idle:
  assumes "reachable s" and "localStreamRef s = None"
  shows "currentCall s = None \<and> \<not> isCallActive s \<and> \<not> hasRemoteStream s \<and>
         peer_call from s =
           s\<lparr> calls := calls s @ [\<lparr> remote = from, sent_stream = None, close_calls = 0,
                                     handlers = None \<rparr>],
              toasts := toasts s @
                [\<lparr> title = ''Cannot Answer Call'',
                   description = ''Camera not ready. Please refresh and try again.'',
                   variant = Some Destructive \<rparr>] \<rparr> \<and>
         currentCall (peer_call from s) = None \<and>
         \<not> isCallActive (peer_call from s) \<and>
         \<not> hasRemoteStream (peer_call from s) \<and>
         localStreamRef (peer_call from s) = None"
proof -
  have idle: "currentCall s = None \<and> \<not> isCallActive s \<and> \<not> hasRemoteStream s"
    using no_media_idle [OF assms] by blast
  have eq: "peer_call from s =
           s\<lparr> calls := calls s @ [\<lparr> remote = from, sent_stream = None, close_calls = 0,
                                     handlers = None \<rparr>],
              toasts := toasts s @
                [\<lparr> title = ''Cannot Answer Call'',
                   description = ''Camera not ready. Please refresh and try again.'',
                   variant = Some Destructive \<rparr>] \<rparr>"
    using assms(2) by (simp add: peer_call_def on_call_def showToast_def new_connection_def)
  show ?thesis
    unfolding eq using idle assms(2) by simp
qed

text \<open>C3 at \<open>scenario_denied\<close>: camera denied, then an offer from \<^verbatim>\<open>DR-XYZ98765\<close>.\<close>

theorem offer_without_media_stays_idle_witness:
  "reachable scenario_denied \<and> localStreamRef scenario_denied = None \<and>
   currentCall (peer_call ''DR-XYZ98765'' scenario_denied) = None \<and>
   \<not> isCallActive (peer_call ''DR-XYZ98765'' scenario_denied) \<and>
   toasts (peer_call ''DR-XYZ98765'' scenario_denied) =
     toasts scenario_denied @
       [\<lparr> title = ''Cannot Answer Call'',
          description = ''Camera not ready. Please refresh and try again.'',
          variant = Some Destructive \<rparr>]"
proof -
  have h: "localStreamRef scenario_denied = None"
    by (simp add: scenario_defs eval_defs)
  from offer_without_media_stays_idle [OF scenario_denied_reachable h, of "''DR-XYZ98765''"]
  have "peer_call ''DR-XYZ98765'' scenario_denied =
           scenario_denied
             \<lparr> calls := calls scenario_denied @
                  [\<lparr> remote = ''DR-XYZ98765'', sent_stream = None, close_calls = 0,
                     handlers = None \<rparr>],
               toasts := toasts scenario_denied @
                  [\<lparr> title = ''Cannot Answer Call'',
                     description = ''Camera not ready. Please refresh and try again.'',
                     variant = Some Destructive \<rparr>] \<rparr>"
    and "currentCall (peer_call ''DR-XYZ98765'' scenario_denied) = None"
    and "\<not> isCallActive (peer_call ''DR-XYZ98765'' scenario_denied)"
    by blast+
  with scenario_denied_reachable h show ?thesis by simp
qed

text \<open>
  C4: an inbound offer that arrives while the local stream is present (from Idle, and in
  fact from any state) is answered at once with that stream: exactly one connection is
  created, it carries the offer's source identity, it is stored and the call is marked
  active. When its \<^verbatim>\<open>stream\<close> event follows, the remote stream is bound
  (\<open>hasRemoteStream\<close>, and \<open>srcObject\<close> of the remote video element where mounted), and
  the stored connection still names the offer's source.
\<close>

theorem offer_with_media_auto_answered:
  assumes "localStreamRef s = Some st"
  shows "calls (peer_call from s) =
           calls s @ [\<lparr> remote = from, sent_stream = Some (stream_id st), close_calls = 0,
                        handlers = Some Incoming \<rparr>] \<and>
         currentCall (peer_call from s) = Some (length (calls s)) \<and>
         isCallActive (peer_call from s) \<and>
         call_emit (length (calls s)) (Stream remoteStream) (peer_call from s) =
           (peer_call from s)
             \<lparr> hasRemoteStream := True,
               remoteVideoRef :=
                 map_option (\<lambda>el. el\<lparr> srcObject := Some remoteStream \<rparr>) (remoteVideoRef s) \<rparr> \<and>
         remote (calls (call_emit (length (calls s)) (Stream remoteStream) (peer_call from s))
                   ! length (calls s)) = from"
  using assms by (cases "remoteVideoRef s") (simp_all add: handler_defs)

text \<open>C4 at \<open>scenario_ready\<close>: the offer from \<^verbatim>\<open>DR-XYZ98765\<close>, then its stream.\<close>

theorem offer_with_media_auto_answered_witness:
  "localStreamRef scenario_ready =
     Some \<lparr> stream_id = 1, tracks = [\<lparr> kind = Video, enabled = True, ended = False \<rparr>,
                                       \<lparr> kind = Audio, enabled = True, ended = False \<rparr>] \<rparr> \<and>
   currentCall scenario_ready = None \<and>
   currentCall (peer_call ''DR-XYZ98765'' scenario_ready) = Some 0 \<and>
   isCallActive (peer_call ''DR-XYZ98765'' scenario_ready) \<and>
   sent_stream (calls (peer_call ''DR-XYZ98765'' scenario_ready) ! 0) = Some 1 \<and>
   hasRemoteStream (call_emit 0 (Stream 2) (peer_call ''DR-XYZ98765'' scenario_ready)) \<and>
   remoteVideoRef (call_emit 0 (Stream 2) (peer_call ''DR-XYZ98765'' scenario_ready)) =
     Some \<lparr> srcObject = Some 2 \<rparr> \<and>
   remote (calls (call_emit 0 (Stream 2) (peer_call ''DR-XYZ98765'' scenario_ready)) ! 0) =
     ''DR-XYZ98765''"
proof -
  have h: "localStreamRef scenario_ready =
     Some \<lparr> stream_id = 1, tracks = [\<lparr> kind = Video, enabled = True, ended = False \<rparr>,
                                       \<lparr> kind = Audio, enabled = True, ended = False \<rparr>] \<rparr>"
    by (simp add: scenario_defs eval_defs)
  have c: "calls scenario_ready = []" "remoteVideoRef scenario_ready = Some \<lparr> srcObject = None \<rparr>"
    "currentCall scenario_ready = None"
    by (simp_all add: scenario_defs eval_defs)
  from offer_with_media_auto_answered [OF h, of "''DR-XYZ98765''" 2] h c show ?thesis by simp
qed


section \<open>Placing a call\<close>

text \<open>What \<^verbatim>\<open>makeCall\<close> does in any state: its own three tests and their two outcomes.\<close>

lemma makeCall_cases:
  "(peer s = None \<or> remotePeerIdInput s = [] \<or> localStreamRef s = None \<longrightarrow>
      makeCall s =
        s\<lparr> toasts := toasts s @
             [\<lparr> title = ''Cannot Make Call'',
                description = ''Please ensure you're connected and have entered a ''
                              @ other_lower (role s) @ '' ID'',
                variant = Some Destructive \<rparr>] \<rparr>) \<and>
   (peer s \<noteq> None \<and> remotePeerIdInput s \<noteq> [] \<and> localStreamRef s \<noteq> None \<longrightarrow>
      calls (makeCall s) =
        calls s @ [\<lparr> remote = remotePeerIdInput s,
                     sent_stream = map_option stream_id (localStreamRef s),
                     close_calls = 0, handlers = Some Outgoing \<rparr>] \<and>
      currentCall (makeCall s) = Some (length (calls s)) \<and>
      isCallActive (makeCall s))"
  by (simp add: makeCall_def cannot_make_call_def showToast_def)

text \<open>
  C5: on the page, the transition from Idle to Offering fires only when the registration
  is open, the local stream is present and the remote identity is non-empty. A click on
  Call changes the connections only under these three conditions, and only from Idle.
  Whenever the page invokes \<^verbatim>\<open>makeCall\<close>, the session is Idle; if the three conditions
  hold, the offer is placed to the typed identity with the local stream, stored and marked
  active; if one of them fails, \<^verbatim>\<open>makeCall\<close> adds one ``Cannot Make Call'' notice and
  changes nothing else, so the session stays Idle and no offer is placed.
\<close>

theorem makeCall_fires_only_when_ready:
  assumes "page_reachable s"
  shows "(calls (click MakeCall s) \<noteq> calls s \<or> currentCall (click MakeCall s) \<noteq> currentCall s \<longrightarrow>
            isConnected s \<and> localStreamRef s \<noteq> None \<and> remotePeerIdInput s \<noteq> [] \<and>
            currentCall s = None \<and> \<not> isCallActive s) \<and>
         (page_admissible s MakeCall \<longrightarrow>
            currentCall s = None \<and> \<not> isCallActive s \<and>
            (isConnected s \<and> localStreamRef s \<noteq> None \<and> remotePeerIdInput s \<noteq> [] \<longrightarrow>
               calls (makeCall s) =
                 calls s @ [\<lparr> remote = remotePeerIdInput s,
                              sent_stream = map_option stream_id (localStreamRef s),
                              close_calls = 0, handlers = Some Outgoing \<rparr>] \<and>
               currentCall (makeCall s) = Some (length (calls s)) \<and>
               isCallActive (makeCall s)) \<and>
            (\<not> (isConnected s \<and> localStreamRef s \<noteq> None \<and> remotePeerIdInput s \<noteq> []) \<longrightarrow>
               makeCall s =
                 s\<lparr> toasts := toasts s @
                      [\<lparr> title = ''Cannot Make Call'',
                         description = ''Please ensure you're connected and have entered a ''
                                       @ other_lower (role s) @ '' ID'',
                         variant = Some Destructive \<rparr>] \<rparr> \<and>
               calls (makeCall s) = calls s \<and>
               currentCall (makeCall s) = None \<and> \<not> isCallActive (makeCall s)))"
proof -
  have r: "reachable s" by (rule page_reachable_reachable [OF assms])
  have idle: "isCallActive s = (currentCall s \<noteq> None)" by (rule active_iff_stored [OF r])
  have peer: "isConnected s \<Longrightarrow> peer s \<noteq> None" by (rule connected_has_peer [OF r])
  show ?thesis
  proof (cases "page_admissible s MakeCall")
    case False
    then have "click MakeCall s = s" by (simp only: click_def if_False)
    with False show ?thesis by (simp del: page_admissible.simps)
  next
    case True
    then have g: "\<not> isCallActive s" "remotePeerIdInput s \<noteq> []" "isConnected s" by simp_all
    from g idle have i: "currentCall s = None" by simp
    from g peer have p: "peer s \<noteq> None" by simp
    have c: "click MakeCall s = makeCall s" using True by (simp add: click_def)
    show ?thesis
    proof (cases "localStreamRef s = None")
      case True
      with makeCall_cases [of s]
      have "makeCall s =
                 s\<lparr> toasts := toasts s @
                      [\<lparr> title = ''Cannot Make Call'',
                         description = ''Please ensure you're connected and have entered a ''
                                       @ other_lower (role s) @ '' ID'',
                         variant = Some Destructive \<rparr>] \<rparr>"
        by blast
      with True g i c show ?thesis by simp
    next
      case False
      with makeCall_cases [of s] g p
      have "calls (makeCall s) =
                 calls s @ [\<lparr> remote = remotePeerIdInput s,
                              sent_stream = map_option stream_id (localStreamRef s),
                              close_calls = 0, handlers = Some Outgoing \<rparr>] \<and>
               currentCall (makeCall s) = Some (length (calls s)) \<and>
               isCallActive (makeCall s)"
        by blast
      with False g i c show ?thesis by simp
    qed
  qed
qed

text \<open>
  C5 at \<open>scenario_typed\<close> (registered, camera granted, identity typed: the offer is
  placed), at \<open>scenario_denied_typed\<close> (camera denied: notice only) and at
  \<open>scenario_ready\<close> (nothing typed: the button is disabled and a click changes nothing).
\<close>

theorem makeCall_fires_only_when_ready_witness:
  "page_reachable scenario_typed \<and> page_admissible scenario_typed MakeCall \<and>
   isConnected scenario_typed \<and> localStreamRef scenario_typed \<noteq> None \<and>
   remotePeerIdInput scenario_typed \<noteq> [] \<and>
   currentCall (click MakeCall scenario_typed) \<noteq> currentCall scenario_typed \<and>
   currentCall (makeCall scenario_typed) = Some 0 \<and> isCallActive (makeCall scenario_typed) \<and>
   calls (makeCall scenario_typed) =
     [\<lparr> remote = ''DR-NOTFOUND'', sent_stream = Some 1, close_calls = 0,
        handlers = Some Outgoing \<rparr>] \<and>
   page_reachable scenario_denied_typed \<and> page_admissible scenario_denied_typed MakeCall \<and>
   localStreamRef scenario_denied_typed = None \<and>
   currentCall (makeCall scenario_denied_typed) = None \<and>
   \<not> isCallActive (makeCall scenario_denied_typed) \<and>
   calls (makeCall scenario_denied_typed) = calls scenario_denied_typed \<and>
   length (toasts (makeCall scenario_denied_typed)) = Suc (length (toasts scenario_denied_typed)) \<and>
   page_reachable scenario_ready \<and> \<not> page_admissible scenario_ready MakeCall \<and>
   click MakeCall scenario_ready = scenario_ready"
proof -
  have t: "page_admissible scenario_typed MakeCall" "isConnected scenario_typed"
    "localStreamRef scenario_typed =
       Some \<lparr> stream_id = 1, tracks = [\<lparr> kind = Video, enabled = True, ended = False \<rparr>,
                                         \<lparr> kind = Audio, enabled = True, ended = False \<rparr>] \<rparr>"
    "remotePeerIdInput scenario_typed = ''DR-NOTFOUND''" "calls scenario_typed = []"
    "currentCall scenario_typed = None"
    by (simp_all add: scenario_defs eval_defs)
  have d: "page_admissible scenario_denied_typed MakeCall"
    "localStreamRef scenario_denied_typed = None"
    by (simp_all add: scenario_defs eval_defs)
  have r: "\<not> page_admissible scenario_ready MakeCall"
    by (simp add: scenario_defs eval_defs)
  from makeCall_fires_only_when_ready [OF scenario_typed_on_page] t
  have 1: "currentCall (makeCall scenario_typed) = Some 0" "isCallActive (makeCall scenario_typed)"
    "calls (makeCall scenario_typed) =
     [\<lparr> remote = ''DR-NOTFOUND'', sent_stream = Some 1, close_calls = 0,
        handlers = Some Outgoing \<rparr>]"
    by simp_all
  from makeCall_fires_only_when_ready [OF scenario_denied_typed_on_page] d
  have 2: "makeCall scenario_denied_typed =
                 scenario_denied_typed\<lparr> toasts := toasts scenario_denied_typed @
                      [\<lparr> title = ''Cannot Make Call'',
                         description = ''Please ensure you're connected and have entered a ''
                                       @ other_lower (role scenario_denied_typed) @ '' ID'',
                         variant = Some Destructive \<rparr>] \<rparr>"
    and 3: "currentCall (makeCall scenario_denied_typed) = None"
      "\<not> isCallActive (makeCall scenario_denied_typed)"
      "calls (makeCall scenario_denied_typed) = calls scenario_denied_typed"
    by simp_all
  have 4: "length (toasts (makeCall scenario_denied_typed)) = Suc (length (toasts scenario_denied_typed))"
    unfolding 2 by simp
  have 5: "click MakeCall scenario_typed = makeCall scenario_typed"
    "click MakeCall scenario_ready = scenario_ready"
    using t(1) r by (simp_all add: click_def del: page_admissible.simps)
  from scenario_typed_on_page scenario_denied_typed_on_page scenario_ready_on_page
    t d r 1 3 4 5 show ?thesis by simp
qed


section \<open>Ending a call\<close>

lemma endCall_again: "endCall (endCall s) = endCall s"
  by (cases "currentCall s")
     (simp_all add: endCall_def endCall_closure_def showToast_def bind_remote_def update_call_def
        split: option.splits)

lemma click_EndCall_idle: "\<not> isCallActive s \<Longrightarrow> (click EndCall ^^ n) s = s"
  by (induction n) (simp_all add: click_def)

text \<open>
  One closure invoked twice would close and notify twice, since its guard reads the
  captured cell. The page does not do this: the End Call button is the only caller, and
  the cells set by a click are committed, and the button rendered anew, before the next
  click is handled.
\<close>

lemma endCall_closure_reinvoked:
  assumes "c < length (calls s)"
  shows "close_calls (calls (endCall_closure (Some c) (endCall_closure (Some c) s)) ! c)
           = close_calls (calls s ! c) + 2 \<and>
         length (toasts (endCall_closure (Some c) (endCall_closure (Some c) s)))
           = length (toasts s) + 2"
  using assms
  by (cases "remoteVideoRef s")
     (simp_all add: endCall_closure_def showToast_def bind_remote_def update_call_def)

text \<open>
  C7: on the page \<^verbatim>\<open>endCall\<close> is invoked by clicks on End Call. From every state of the
  page in which a call is active, one or more such clicks in succession have the effect
  of a single invocation: the stored connection is closed exactly once, one notice is
  emitted, the session is Idle (\<open>currentCall\<close> empty, \<open>isCallActive\<close> and
  \<open>hasRemoteStream\<close> false, remote video source cleared), and the local stream with
  its tracks is untouched. Every later click finds the button disabled, and an invocation
  on the committed state would find no stored connection and change nothing. From a
  state in which no call is active, the clicks invoke nothing.
\<close>

theorem endCall_clicks_end_once:
  assumes "page_reachable s"
  shows "(isCallActive s \<longrightarrow>
            (\<exists>c. currentCall s = Some c \<and> c < length (calls s) \<and>
                 (click EndCall ^^ Suc n) s = endCall s \<and>
                 currentCall (endCall s) = None \<and>
                 \<not> isCallActive (endCall s) \<and> \<not> hasRemoteStream (endCall s) \<and>
                 remoteVideoRef (endCall s) =
                   map_option (\<lambda>el. el\<lparr> srcObject := None \<rparr>) (remoteVideoRef s) \<and>
                 calls (endCall s) =
                   (calls s)[c := (calls s ! c)\<lparr> close_calls := Suc (close_calls (calls s ! c)) \<rparr>] \<and>
                 toasts (endCall s) =
                   toasts s @ [\<lparr> title = ''Call Ended'',
                                 description = ''The consultation has been terminated'',
                                 variant = None \<rparr>] \<and>
                 localStreamRef (endCall s) = localStreamRef s \<and>
                 \<not> page_admissible (endCall s) EndCall \<and>
                 endCall (endCall s) = endCall s)) \<and>
         (\<not> isCallActive s \<longrightarrow> (click EndCall ^^ n) s = s)"
proof -
  have r: "reachable s" by (rule page_reachable_reachable [OF assms])
  have idle: "isCallActive s = (currentCall s \<noteq> None)" by (rule active_iff_stored [OF r])
  show ?thesis
  proof (cases "isCallActive s")
    case False
    then show ?thesis by (simp add: click_EndCall_idle)
  next
    case True
    with idle obtain c where c: "currentCall s = Some c" by auto
    with current_call_registered [OF r] have len: "c < length (calls s)" by simp
    have fields: "currentCall (endCall s) = None \<and>
                 \<not> isCallActive (endCall s) \<and> \<not> hasRemoteStream (endCall s) \<and>
                 remoteVideoRef (endCall s) =
                   map_option (\<lambda>el. el\<lparr> srcObject := None \<rparr>) (remoteVideoRef s) \<and>
                 calls (endCall s) =
                   (calls s)[c := (calls s ! c)\<lparr> close_calls := Suc (close_calls (calls s ! c)) \<rparr>] \<and>
                 toasts (endCall s) =
                   toasts s @ [\<lparr> title = ''Call Ended'',
                                 description = ''The consultation has been terminated'',
                                 variant = None \<rparr>] \<and>
                 localStreamRef (endCall s) = localStreamRef s"
      using c len
      by (cases "remoteVideoRef s")
         (simp_all add: endCall_def endCall_closure_def showToast_def bind_remote_def update_call_def)
    then have off: "\<not> isCallActive (endCall s)" by blast
    have first: "click EndCall s = endCall s" using True by (simp add: click_def)
    have "(click EndCall ^^ Suc n) s = (click EndCall ^^ n) (click EndCall s)"
      by (simp add: funpow_swap1)
    also have "\<dots> = endCall s"
      unfolding first by (rule click_EndCall_idle [OF off])
    finally have many: "(click EndCall ^^ Suc n) s = endCall s" .
    from True c len fields off many endCall_again [of s] show ?thesis by simp
  qed
qed

text \<open>
  C7 at \<open>scenario_active\<close>: three clicks on End Call close connection 0 once and emit one
  notice; at \<open>scenario_ready\<close>, where no call is active, they invoke nothing.
\<close>

theorem endCall_clicks_end_once_witness:
  "page_reachable scenario_active \<and> isCallActive scenario_active \<and>
   currentCall scenario_active = Some 0 \<and> hasRemoteStream scenario_active \<and>
   (click EndCall ^^ 3) scenario_active = endCall scenario_active \<and>
   currentCall (endCall scenario_active) = None \<and>
   \<not> isCallActive (endCall scenario_active) \<and> \<not> hasRemoteStream (endCall scenario_active) \<and>
   close_calls (calls (endCall scenario_active) ! 0) = 1 \<and>
   toasts (endCall scenario_active) =
     toasts scenario_active @
       [\<lparr> title = ''Call Ended'', description = ''The consultation has been terminated'',
          variant = None \<rparr>] \<and>
   page_reachable scenario_ready \<and> \<not> isCallActive scenario_ready \<and>
   (click EndCall ^^ 3) scenario_ready = scenario_ready"
proof -
  have a: "isCallActive scenario_active" "currentCall scenario_active = Some 0"
    "hasRemoteStream scenario_active"
    "calls scenario_active =
       [\<lparr> remote = ''DR-XYZ98765'', sent_stream = Some 1, close_calls = 0,
          handlers = Some Incoming \<rparr>]"
    by (simp_all add: scenario_defs eval_defs)
  have b: "\<not> isCallActive scenario_ready"
    by (simp add: scenario_defs eval_defs)
  have three: "(3::nat) = Suc 2" by simp
  from endCall_clicks_end_once [OF scenario_active_on_page, of 2] a
  have 1: "(click EndCall ^^ 3) scenario_active = endCall scenario_active"
    and 2: "currentCall (endCall scenario_active) = None"
      "\<not> isCallActive (endCall scenario_active)" "\<not> hasRemoteStream (endCall scenario_active)"
    and 3: "calls (endCall scenario_active) =
       [\<lparr> remote = ''DR-XYZ98765'', sent_stream = Some 1, close_calls = 1,
          handlers = Some Incoming \<rparr>]"
    and 4: "toasts (endCall scenario_active) =
     toasts scenario_active @
       [\<lparr> title = ''Call Ended'', description = ''The consultation has been terminated'',
          variant = None \<rparr>]"
    unfolding three by simp_all
  from endCall_clicks_end_once [OF scenario_ready_on_page, of 3] b
  have 5: "(click EndCall ^^ 3) scenario_ready = scenario_ready" by blast
  from scenario_active_on_page scenario_ready_on_page a b 1 2 3 4 5 show ?thesis by simp
qed


section \<open>A close event from the remote side\<close>

text \<open>
  C9: when the stored connection of a call receives \<^verbatim>\<open>close\<close>, the session returns to
  Idle and the remote binding is cleared (\<open>isCallActive\<close> and \<open>hasRemoteStream\<close> false,
  \<open>currentCall\<close> empty, \<open>srcObject\<close> of the remote video element empty), and nothing
  else changes: the local stream with all its tracks, \<open>isConnected\<close>, \<open>peerId\<close>
  and the peer are as before.
\<close>

theorem remote_close_returns_to_idle:
  assumes "reachable s" and "currentCall s = Some c"
  shows "call_emit c Close s =
           s\<lparr> isCallActive := False, currentCall := None, hasRemoteStream := False,
              remoteVideoRef := map_option (\<lambda>el. el\<lparr> srcObject := None \<rparr>) (remoteVideoRef s) \<rparr> \<and>
         localStreamRef (call_emit c Close s) = localStreamRef s \<and>
         isConnected (call_emit c Close s) = isConnected s \<and>
         peerId (call_emit c Close s) = peerId s \<and>
         peer (call_emit c Close s) = peer s"
proof -
  from current_call_registered [OF assms(1)] assms(2)
  obtain d where c: "c < length (calls s)" and d: "handlers (calls s ! c) = Some d"
    by auto
  have eq: "call_emit c Close s =
           s\<lparr> isCallActive := False, currentCall := None, hasRemoteStream := False,
              remoteVideoRef := map_option (\<lambda>el. el\<lparr> srcObject := None \<rparr>) (remoteVideoRef s) \<rparr>"
    using c d by (cases "remoteVideoRef s") (simp_all add: call_emit_def on_close_def bind_remote_def)
  show ?thesis unfolding eq by simp
qed

text \<open>C9 at \<open>scenario_active\<close>: the active call with \<^verbatim>\<open>DR-XYZ98765\<close> is closed remotely.\<close>

theorem remote_close_returns_to_idle_witness:
  "reachable scenario_active \<and> currentCall scenario_active = Some 0 \<and>
   isCallActive scenario_active \<and> hasRemoteStream scenario_active \<and>
   \<not> isCallActive (call_emit 0 Close scenario_active) \<and>
   currentCall (call_emit 0 Close scenario_active) = None \<and>
   \<not> hasRemoteStream (call_emit 0 Close scenario_active) \<and>
   remoteVideoRef (call_emit 0 Close scenario_active) = Some \<lparr> srcObject = None \<rparr> \<and>
   localStreamRef (call_emit 0 Close scenario_active) = localStreamRef scenario_active \<and>
   isConnected (call_emit 0 Close scenario_active)"
proof -
  have a: "currentCall scenario_active = Some 0" "isCallActive scenario_active"
    "hasRemoteStream scenario_active" "remoteVideoRef scenario_active = Some \<lparr> srcObject = Some 2 \<rparr>"
    "isConnected scenario_active"
    by (simp_all add: scenario_defs eval_defs)
  from remote_close_returns_to_idle [OF scenario_active_reachable a(1)]
  have eq: "call_emit 0 Close scenario_active =
           scenario_active
             \<lparr> isCallActive := False, currentCall := None, hasRemoteStream := False,
               remoteVideoRef :=
                 map_option (\<lambda>el. el\<lparr> srcObject := None \<rparr>) (remoteVideoRef scenario_active) \<rparr>"
    by blast
  show ?thesis unfolding eq using a scenario_active_reachable by simp
qed


section \<open>Mute toggles\<close>

text \<open>
  C8: in every reachable state whose local stream has a video track, two invocations of
  \<^verbatim>\<open>toggleVideo\<close> restore the whole state, in particular the \<open>enabled\<close> flag of that
  track and \<open>isVideoMuted\<close>; in between the flag is inverted and the indicator shows
  it; the stream bound in \<open>localStreamRef\<close> is the same object throughout.
\<close>

theorem toggleVideo_twice_restores:
  assumes "reachable s" and "localStreamRef s = Some st" and "getTracksOf Video st = t # rest"
  shows "toggleVideo (toggleVideo s) = s \<and>
         first_enabled Video (localStreamRef (toggleVideo s)) = (\<not> enabled t) \<and>
         isVideoMuted (toggleVideo s) = enabled t \<and>
         map_option stream_id (localStreamRef (toggleVideo s)) = Some (stream_id st)"
proof -
  let ?st1 = "st\<lparr> tracks := set_first_enabled Video (\<not> enabled t) (tracks st) \<rparr>"
  let ?s1 = "s\<lparr> localStreamRef := Some ?st1, isVideoMuted := enabled t \<rparr>"
  have one: "toggleVideo s = ?s1"
    by (rule toggleVideo_present [OF assms(2,3)])
  have ref1: "localStreamRef ?s1 = Some ?st1" by simp
  have tr1: "getTracksOf Video ?st1 = t\<lparr> enabled := \<not> enabled t \<rparr> # rest"
    using assms(3) by (simp add: getTracksOf_def first_track_same_kind)
  have two: "toggleVideo ?s1 =
      ?s1\<lparr> localStreamRef := Some (?st1\<lparr> tracks := set_first_enabled Video (enabled t) (tracks ?st1) \<rparr>),
           isVideoMuted := \<not> enabled t \<rparr>"
    using toggleVideo_present [OF ref1 tr1] by simp
  have orig: "set_first_enabled Video (enabled t) (tracks ?st1) = tracks st"
    using assms(3) by (simp add: set_first_enabled_twice set_first_enabled_restore getTracksOf_def)
  have muted: "isVideoMuted s = (\<not> enabled t)"
    using mute_flags_follow_tracks [OF assms(1)] assms(2,3)
    by (simp add: mute_flags_agree_def first_enabled_def)
  have restored: "toggleVideo (toggleVideo s) = s"
  proof -
    have "toggleVideo (toggleVideo s) = s\<lparr> localStreamRef := Some st, isVideoMuted := \<not> enabled t \<rparr>"
      unfolding one two using orig by simp
    also have "\<dots> = s\<lparr> localStreamRef := localStreamRef s, isVideoMuted := isVideoMuted s \<rparr>"
      by (simp only: assms(2) muted)
    also have "\<dots> = s" by simp
    finally show ?thesis .
  qed
  have mid: "first_enabled Video (localStreamRef (toggleVideo s)) = (\<not> enabled t)"
    unfolding one by (simp add: first_enabled_set_same [OF assms(3)])
  show ?thesis using restored mid unfolding one by simp
qed

text \<open>C8 at \<open>scenario_ready\<close>: video off, then on again.\<close>

theorem toggleVideo_twice_restores_witness:
  "reachable scenario_ready \<and>
   localStreamRef scenario_ready =
     Some \<lparr> stream_id = 1, tracks = [\<lparr> kind = Video, enabled = True, ended = False \<rparr>,
                                       \<lparr> kind = Audio, enabled = True, ended = False \<rparr>] \<rparr> \<and>
   isVideoMuted (toggleVideo scenario_ready) \<and>
   \<not> first_enabled Video (localStreamRef (toggleVideo scenario_ready)) \<and>
   toggleVideo (toggleVideo scenario_ready) = scenario_ready"
proof -
  have h: "localStreamRef scenario_ready =
     Some \<lparr> stream_id = 1, tracks = [\<lparr> kind = Video, enabled = True, ended = False \<rparr>,
                                       \<lparr> kind = Audio, enabled = True, ended = False \<rparr>] \<rparr>"
    by (simp add: scenario_defs eval_defs)
  have g: "getTracksOf Video
             \<lparr> stream_id = 1, tracks = [\<lparr> kind = Video, enabled = True, ended = False \<rparr>,
                                         \<lparr> kind = Audio, enabled = True, ended = False \<rparr>] \<rparr>
           = \<lparr> kind = Video, enabled = True, ended = False \<rparr> # []"
    by (simp add: getTracksOf_def)
  from toggleVideo_twice_restores [OF scenario_ready_reachable h g] scenario_ready_reachable h
  show ?thesis by simp
qed

text \<open>
  C10: \<^verbatim>\<open>toggleVideo\<close> and \<^verbatim>\<open>toggleAudio\<close> return the state unchanged (every mute flag,
  every session and registration cell, the notices) when the local stream is absent or
  has no track of the kind they address; being total functions, they do not fail.
\<close>

theorem toggle_without_track_is_noop:
  "((localStreamRef s = None \<or> (\<exists>st. localStreamRef s = Some st \<and> getTracksOf Video st = [])) \<longrightarrow>
      toggleVideo s = s) \<and>
   ((localStreamRef s = None \<or> (\<exists>st. localStreamRef s = Some st \<and> getTracksOf Audio st = [])) \<longrightarrow>
      toggleAudio s = s)"
  using toggleVideo_absent [of s] toggleAudio_absent [of s] by blast

text \<open>
  C10 at \<open>scenario_denied\<close> (no stream) and at \<open>scenario_audio_only\<close> (a stream without
  a video track).
\<close>

theorem toggle_without_track_is_noop_witness:
  "localStreamRef scenario_denied = None \<and>
   toggleVideo scenario_denied = scenario_denied \<and> toggleAudio scenario_denied = scenario_denied \<and>
   localStreamRef scenario_audio_only =
     Some \<lparr> stream_id = 1, tracks = [\<lparr> kind = Audio, enabled = True, ended = False \<rparr>] \<rparr> \<and>
   getTracksOf Video \<lparr> stream_id = 1, tracks = [\<lparr> kind = Audio, enabled = True, ended = False \<rparr>] \<rparr> = [] \<and>
   toggleVideo scenario_audio_only = scenario_audio_only"
proof -
  have d: "localStreamRef scenario_denied = None" by (simp add: scenario_defs eval_defs)
  have a: "localStreamRef scenario_audio_only =
     Some \<lparr> stream_id = 1, tracks = [\<lparr> kind = Audio, enabled = True, ended = False \<rparr>] \<rparr>"
    by (simp add: scenario_defs eval_defs)
  have g: "getTracksOf Video
             \<lparr> stream_id = 1, tracks = [\<lparr> kind = Audio, enabled = True, ended = False \<rparr>] \<rparr> = []"
    by (simp add: getTracksOf_def)
  from toggle_without_track_is_noop [of scenario_denied] d
  have 1: "toggleVideo scenario_denied = scenario_denied" "toggleAudio scenario_denied = scenario_denied"
    by simp_all
  from toggle_without_track_is_noop [of scenario_audio_only] a g
  have 2: "toggleVideo scenario_audio_only = scenario_audio_only" by simp
  from d a g 1 2 show ?thesis by simp
qed

end
